theory Spec2Isabelle
  imports Complex_Main "HOL-Library.AList"
begin

section \<open>Errors\<close>

text \<open>
  The Python exceptions that the modelled code raises or lets through, and the named
  errors of the specification of the two caches. A function that may raise returns
  \<open>error + 'a\<close>, with \<open>Inl\<close> for the exception.
\<close>

datatype error =
    IOError string
  | ValueError string
  | IndexError
  | KeyError string
  | AttributeError string
  | OtherError string
  | NoDataError
  | ReductionError string

section \<open>Depth indices of the ocean heat content analysis\<close>

text \<open>
  \<^verbatim>\<open>TimeSeriesOHC.run\<close> (time_series_ohc.py):
  \<^verbatim>\<open>
    k700m = np.where(depth > 700.)[0][0] - 1
    k2000m = np.where(depth > 2000.)[0][0] - 1
    kbtm = len(depth)-1
  \<close>
  \<open>np.where(c)[0]\<close> is the array of the positions at which \<open>c\<close> holds, in
  ascending order; element 0 of an empty array raises IndexError.
\<close>

definition np_where_gt :: "real list \<Rightarrow> real \<Rightarrow> nat list" where
  "np_where_gt depth thr = filter (\<lambda>i. depth ! i > thr) [0..<length depth]"

definition depth_index :: "real list \<Rightarrow> real \<Rightarrow> error + int" where
  "depth_index depth thr =
     (case np_where_gt depth thr of
        [] \<Rightarrow> Inl IndexError
      | i # _ \<Rightarrow> Inr (int i - 1))"

definition ohc_depth_indices :: "real list \<Rightarrow> error + (int \<times> int \<times> int)" where
  "ohc_depth_indices depth =
     (case depth_index depth 700 of
        Inl e \<Rightarrow> Inl e
      | Inr k700m \<Rightarrow>
          (case depth_index depth 2000 of
             Inl e \<Rightarrow> Inl e
           | Inr k2000m \<Rightarrow> Inr (k700m, k2000m, int (length depth) - 1)))"

section \<open>Python sequences\<close>

text \<open>
  \<^verbatim>\<open>xs[0]\<close> raises IndexError on an empty sequence. \<^verbatim>\<open>xs[i]\<close> counts a negative
  index from the end and raises IndexError outside \<open>-len(xs) \<le> i < len(xs)\<close>.
\<close>

definition first_elem :: "'a list \<Rightarrow> error + 'a" where
  "first_elem xs = (case xs of [] \<Rightarrow> Inl IndexError | x # _ \<Rightarrow> Inr x)"

definition index_ok :: "nat \<Rightarrow> int \<Rightarrow> bool" where
  "index_ok n i \<longleftrightarrow> - int n \<le> i \<and> i < int n"

definition pick :: "'a list \<Rightarrow> int \<Rightarrow> 'a" where
  "pick xs i = xs ! nat (if i < 0 then i + int (length xs) else i)"

definition py_index :: "'a list \<Rightarrow> int \<Rightarrow> error + 'a" where
  "py_index xs i = (if index_ok (length xs) i then Inr (pick xs i) else Inl IndexError)"

definition bind_err :: "error + 'a \<Rightarrow> ('a \<Rightarrow> error + 'b) \<Rightarrow> error + 'b" where
  "bind_err m k = (case m of Inl e \<Rightarrow> Inl e | Inr x \<Rightarrow> k x)"

definition check :: "error option \<Rightarrow> (error + 'b) \<Rightarrow> error + 'b" where
  "check step k = (case step of Some e \<Rightarrow> Inl e | None \<Rightarrow> k)"

fun is_ValueError :: "error \<Rightarrow> bool" where
  "is_ValueError (ValueError m) = True"
| "is_ValueError e = False"

fun is_IOError :: "error \<Rightarrow> bool" where
  "is_IOError (IOError m) = True"
| "is_IOError e = False"

section \<open>Sea-ice time series: restart file and start time\<close>

text \<open>
  \<^verbatim>\<open>seaice_timeseries\<close> (sea_ice/timeseries.py). The streams files, the namelist and
  the helper \<^verbatim>\<open>get_simulation_start_time\<close> are collaborators outside the analysed
  files; the record holds the outcome of each of their calls, an exception as \<open>Inl\<close>.
  \<open>seaice_namelist\<close> and \<open>seaice_streams\<close> are the outcomes of constructing the
  sea-ice \<^verbatim>\<open>NameList\<close> and \<^verbatim>\<open>StreamsFile\<close> (\<open>None\<close>: constructed);
  \<open>ocean_streams\<close> is the outcome of reading the option \<^verbatim>\<open>oceanStreamsFileName\<close>
  and of constructing the ocean \<^verbatim>\<open>StreamsFile\<close>.
\<close>

record seaice_env =
  seaice_namelist :: "error option"
  seaice_streams :: "error option"
  seaice_start_time :: "error + string"
  ocean_streams :: "error option"
  ocean_start_time :: "error + string"
  seaice_find_stream :: "error + string"
  seaice_readpath :: "error + string list"
  seaice_restart :: "error + string list"
  ocean_restart :: "error + string list"

text \<open>
  \<^verbatim>\<open>
    try:
        simulationStartTime = get_simulation_start_time(streams)
    except IOError:
        oceanStreamsFileName = config.get('input', 'oceanStreamsFileName')
        oceanStreams = StreamsFile(oceanStreamsFileName, streamsdir=inDirectory)
        simulationStartTime = get_simulation_start_time(oceanStreams)
  \<close>
\<close>

definition simulation_start_time :: "seaice_env \<Rightarrow> error + string" where
  "simulation_start_time env =
     (case seaice_start_time env of
        Inr t \<Rightarrow> Inr t
      | Inl e \<Rightarrow>
          if is_IOError e then check (ocean_streams env) (ocean_start_time env)
          else Inl e)"

text \<open>
  \<^verbatim>\<open>
    try:
        restartFile = streams.readpath('restart')[0]
    except ValueError:
        try:
            oceanStreamsFileName = config.get('input', 'oceanStreamsFileName')
            oceanStreams = StreamsFile(oceanStreamsFileName, streamsdir=inDirectory)
            restartFile = oceanStreams.readpath('restart')[0]
        except ValueError:
            raise IOError('No MPAS-O or MPAS-Seaice restart file found: ...')
  \<close>
\<close>

definition seaice_restart_lookup :: "seaice_env \<Rightarrow> error + string" where
  "seaice_restart_lookup env = bind_err (seaice_restart env) first_elem"

definition ocean_restart_lookup :: "seaice_env \<Rightarrow> error + string" where
  "ocean_restart_lookup env =
     check (ocean_streams env) (bind_err (ocean_restart env) first_elem)"

definition no_restart_message :: string where
  "no_restart_message =
     ''No MPAS-O or MPAS-Seaice restart file found: need at least one restart file for seaice_timeseries calculation''"

definition find_restart_file :: "seaice_env \<Rightarrow> error + string" where
  "find_restart_file env =
     (case seaice_restart_lookup env of
        Inr f \<Rightarrow> Inr f
      | Inl e \<Rightarrow>
          if is_ValueError e then
            (case ocean_restart_lookup env of
               Inr g \<Rightarrow> Inr g
             | Inl e' \<Rightarrow> if is_ValueError e' then Inl (IOError no_restart_message) else Inl e')
          else Inl e)"

text \<open>
  The function as a whole, up to the restart file: the namelist and streams, the start time, the stream, the
  input files and the line
  \<^verbatim>\<open>print 'Reading files {} through {}'.format(fileNames[0], fileNames[-1])\<close>,
  then the restart file. Everything after it (loading the data and plotting) is the
  continuation \<open>rest\<close>, which receives the three values found.
\<close>

definition seaice_timeseries ::
  "seaice_env \<Rightarrow> (string \<Rightarrow> string list \<Rightarrow> string \<Rightarrow> error + 'p) \<Rightarrow> error + 'p" where
  "seaice_timeseries env rest =
     check (seaice_namelist env) (
     check (seaice_streams env) (
     bind_err (simulation_start_time env) (\<lambda>simulationStartTime.
     bind_err (seaice_find_stream env) (\<lambda>streamName.
     bind_err (seaice_readpath env) (\<lambda>fileNames.
     bind_err (py_index fileNames 0) (\<lambda>firstName.
     bind_err (py_index fileNames (-1)) (\<lambda>lastName.
     bind_err (find_restart_file env) (\<lambda>restartFile.
       rest simulationStartTime fileNames restartFile))))))))"

section \<open>Legacy sea-surface temperature time series\<close>



section \<open>Setup of the analysis tasks\<close>



fun map_err :: "('a \<Rightarrow> error + 'b) \<Rightarrow> 'a list \<Rightarrow> error + 'b list" where
  "map_err f [] = Inr []"
| "map_err f (x # xs) =
     bind_err (f x) (\<lambda>y. bind_err (map_err f xs) (\<lambda>ys. Inr (y # ys)))"








section \<open>Datasets\<close>

text \<open>
  What the analysed code uses of an xarray dataset: the \<^verbatim>\<open>Time\<close> coordinate, the
  variables that have a \<^verbatim>\<open>Time\<close> dimension (one value per time index, each value
  standing for the array over the other dimensions), the variables without it, the
  sizes of the other dimensions and the attributes of the variables. A time value is an
  integer count of the time unit. In a well-formed dataset every variable along
  \<^verbatim>\<open>Time\<close> has as many values as the coordinate.
\<close>

record 'a dataset =
  Time :: "int list"
  time_vars :: "(string \<times> 'a list) list"
  fixed_vars :: "(string \<times> string \<times> string list) list"
  dims :: "(string \<times> nat) list"
  var_attrs :: "((string \<times> string) \<times> string) list"








section \<open>The reduction callbacks of the time series tasks\<close>










section \<open>Replicating a periodic time series\<close>

text \<open>
  \<^verbatim>\<open>replicate_cycle\<close> (sea_ice/timeseries.py). The conversions between day counts
  and dates and the date differences of \<^verbatim>\<open>MpasRelativeDelta\<close> are collaborators
  outside the analysed files; times, dates and differences are all counted here in the
  one integer time unit, so the conversions are the identity and the difference of two
  dates is their subtraction. The minimum or maximum of an empty coordinate raises
  ValueError.
\<close>

definition time_min :: "int list \<Rightarrow> error + int" where
  "time_min ts =
     (case ts of [] \<Rightarrow> Inl (ValueError ''zero-size array'') | t # ts' \<Rightarrow> Inr (fold min ts' t))"

definition time_max :: "int list \<Rightarrow> error + int" where
  "time_max ts =
     (case ts of [] \<Rightarrow> Inl (ValueError ''zero-size array'') | t # ts' \<Rightarrow> Inr (fold max ts' t))"

text \<open>
  \<^verbatim>\<open>
    startIndex = 0
    while(dsStartTime > repStartTime + (startIndex+1)*period):
        startIndex += 1
    endIndex = 0
    while(dsEndTime > repEndTime + endIndex*period):
        endIndex += 1
  \<close>
  Either loop may run forever; \<open>None\<close> is a loop that does not end.
\<close>

partial_function (option) find_start_index :: "int \<Rightarrow> int \<Rightarrow> int \<Rightarrow> int \<Rightarrow> int option" where
  "find_start_index dsStartTime repStartTime period startIndex =
     (if dsStartTime > repStartTime + (startIndex + 1) * period
      then find_start_index dsStartTime repStartTime period (startIndex + 1)
      else Some startIndex)"

partial_function (option) find_end_index :: "int \<Rightarrow> int \<Rightarrow> int \<Rightarrow> int \<Rightarrow> int option" where
  "find_end_index dsEndTime repEndTime period endIndex =
     (if dsEndTime > repEndTime + endIndex * period
      then find_end_index dsEndTime repEndTime period (endIndex + 1)
      else Some endIndex)"

text \<open>
  \<^verbatim>\<open>xr.concat([a, b], dim='Time')\<close> of two datasets with the same variables;
  ValueError when the variables differ.
\<close>

definition concat_Time :: "'a dataset \<Rightarrow> 'a dataset \<Rightarrow> error + 'a dataset" where
  "concat_Time a b =
     (if map fst (time_vars a) = map fst (time_vars b) then
        Inr (a\<lparr>Time := Time a @ Time b,
                time_vars := map (\<lambda>((name, vs), (name', ws)). (name, vs @ ws))
                               (zip (time_vars a) (time_vars b))\<rparr>)
      else Inl (ValueError ''variables differ''))"

definition shift_Time :: "'a dataset \<Rightarrow> int \<Rightarrow> 'a dataset" where
  "shift_Time ds delta = ds\<lparr>Time := map (\<lambda>t. t + delta) (Time ds)\<rparr>"

text \<open>
  \<^verbatim>\<open>
    for cycleIndex in range(startIndex, endIndex):
        dsNew = dsToReplicate.copy()
        dsNew.coords['Time'] = ('Time',
                                datetime_to_days(times + (cycleIndex+1)*period, ...))
        dsShift = xr.concat([dsShift, dsNew], dim='Time')
  \<close>
\<close>

fun replicate_loop :: "'a dataset \<Rightarrow> int \<Rightarrow> int list \<Rightarrow> 'a dataset \<Rightarrow> error + 'a dataset" where
  "replicate_loop dsToReplicate period [] dsShift = Inr dsShift"
| "replicate_loop dsToReplicate period (cycleIndex # cs) dsShift =
     bind_err (concat_Time dsShift (shift_Time dsToReplicate ((cycleIndex + 1) * period)))
       (replicate_loop dsToReplicate period cs)"

definition replicate_cycle :: "'b dataset \<Rightarrow> 'a dataset \<Rightarrow> (error + 'a dataset) option" where
  "replicate_cycle ds dsToReplicate =
     (case time_min (Time ds) of Inl e \<Rightarrow> Some (Inl e) | Inr dsStartTime \<Rightarrow>
      case time_max (Time ds) of Inl e \<Rightarrow> Some (Inl e) | Inr dsEndTime \<Rightarrow>
      case time_min (Time dsToReplicate) of Inl e \<Rightarrow> Some (Inl e) | Inr repStartTime \<Rightarrow>
      case time_max (Time dsToReplicate) of Inl e \<Rightarrow> Some (Inl e) | Inr repEndTime \<Rightarrow>
      case py_index (Time dsToReplicate) 1 of Inl e \<Rightarrow> Some (Inl e) | Inr repSecondTime \<Rightarrow>
      let period = (repEndTime - repStartTime) + (repSecondTime - repStartTime) in
      case find_start_index dsStartTime repStartTime period 0 of None \<Rightarrow> None
      | Some startIndex \<Rightarrow>
      case find_end_index dsEndTime repEndTime period 0 of None \<Rightarrow> None
      | Some endIndex \<Rightarrow>
        Some (replicate_loop dsToReplicate period [startIndex..endIndex - 1]
                (shift_Time dsToReplicate (startIndex * period))))"

section \<open>The time-series cache\<close>

text \<open>
  Modelled from the spec: \<^verbatim>\<open>cache_time_series\<close> (module shared/time_series of the
  repository) is called by the tasks but is not among the analysed files; the model
  follows sections 3, 4.4, 5 and 7 of the specification. The conversion of a time value
  to its calendar year is a collaborator (the timekeeping utilities) and is the
  parameter \<open>year_of\<close>.

  The cache artifact records the calendar, the span of years covered and the
  concatenated results, one row per time value. The file at the cache path is absent,
  unreadable, or holds such a record.
\<close>

type_synonym calendar = string

record 'r ts_cache =
  cache_calendar :: calendar
  cache_first_year :: int
  cache_last_year :: int
  cache_rows :: "(int \<times> 'r) list"

datatype 'r ts_file = Absent | Corrupt | Stored "'r ts_cache"

text \<open>
  Inspection of the existing file: a record with another calendar is a full miss, an
  unreadable file is discarded.
\<close>

fun valid_cache :: "calendar \<Rightarrow> 'r ts_file \<Rightarrow> 'r ts_cache option" where
  "valid_cache cal Absent = None"
| "valid_cache cal Corrupt = None"
| "valid_cache cal (Stored k) = (if cache_calendar k = cal then Some k else None)"

fun discard_corrupt :: "'r ts_file \<Rightarrow> 'r ts_file" where
  "discard_corrupt Corrupt = Absent"
| "discard_corrupt file = file"

text \<open>
  The chunks of a request: spans of \<open>yearsPerCacheUpdate\<close> calendar years, ascending
  from the first year of the request, the last one cut at its last year. The number of
  years per chunk is positive in every use; with zero there is no chunk.
\<close>

function chunk_years :: "int \<Rightarrow> int \<Rightarrow> nat \<Rightarrow> (int \<times> int) list" where
  "chunk_years firstYear endYear n =
     (if n = 0 \<or> endYear < firstYear then []
      else (firstYear, min endYear (firstYear + int n - 1))
             # chunk_years (firstYear + int n) endYear n)"
  by pat_completeness auto
termination
  by (relation "measure (\<lambda>(firstYear, endYear, n). nat (endYear + 1 - firstYear))") auto

declare chunk_years.simps [simp del]

text \<open>
  A chunk is validly covered when its span of years lies within the cached record. A
  computed time value is never recomputed: the time indices of a chunk that is not
  covered are those of its time values whose year the cached record does not cover.
\<close>

definition year_cached :: "'r ts_cache option \<Rightarrow> int \<Rightarrow> bool" where
  "year_cached cached y =
     (case cached of
        None \<Rightarrow> False
      | Some k \<Rightarrow> cache_first_year k \<le> y \<and> y \<le> cache_last_year k)"

definition chunk_covered :: "'r ts_cache option \<Rightarrow> int \<times> int \<Rightarrow> bool" where
  "chunk_covered cached c =
     (case cached of
        None \<Rightarrow> False
      | Some k \<Rightarrow> cache_first_year k \<le> fst c \<and> snd c \<le> cache_last_year k)"

definition time_indices_for_chunk ::
  "(int \<Rightarrow> int) \<Rightarrow> int list \<Rightarrow> 'r ts_cache option \<Rightarrow> int \<times> int \<Rightarrow> int list" where
  "time_indices_for_chunk yr timeValues cached c =
     map int (filter (\<lambda>i. fst c \<le> yr (timeValues ! i) \<and> yr (timeValues ! i) \<le> snd c
                          \<and> \<not> year_cached cached (yr (timeValues ! i)))
                [0..<length timeValues])"

text \<open>
  The result of a chunk is concatenated onto the cached result along the time
  dimension; the first chunk ever computed starts the record.
\<close>

definition append_chunk ::
  "calendar \<Rightarrow> 'r ts_cache option \<Rightarrow> int \<times> int \<Rightarrow> (int \<times> 'r) list \<Rightarrow> 'r ts_cache" where
  "append_chunk cal cached c part =
     (case cached of
        None \<Rightarrow>
          \<lparr>cache_calendar = cal, cache_first_year = fst c, cache_last_year = snd c,
           cache_rows = part\<rparr>
      | Some k \<Rightarrow>
          k\<lparr>cache_first_year := min (cache_first_year k) (fst c),
            cache_last_year := max (cache_last_year k) (snd c),
            cache_rows := cache_rows k @ part\<rparr>)"

text \<open>
  The loop over the chunks, in order. The state is the file at the cache path, replaced
  as a whole after each computed chunk and before the next one is begun. The reduction
  function receives the time indices of the chunk and \<open>firstCall\<close>, true when no chunk
  has ever been computed for the cache file. A reduction that raises ends the loop with
  its exception and nothing of its chunk is stored. The third component lists the calls
  of the reduction function.
\<close>

fun process_chunks ::
  "(int \<Rightarrow> int) \<Rightarrow> int list \<Rightarrow> (int list \<Rightarrow> bool \<Rightarrow> error + (int \<times> 'r) list) \<Rightarrow> calendar
     \<Rightarrow> (int \<times> int) list \<Rightarrow> 'r ts_file
     \<Rightarrow> error option \<times> 'r ts_file \<times> (int list \<times> bool) list" where
  "process_chunks yr timeValues reductionFn cal [] file = (None, file, [])"
| "process_chunks yr timeValues reductionFn cal (c # cs) file =
     (let cached = valid_cache cal file in
      if chunk_covered cached c then process_chunks yr timeValues reductionFn cal cs file
      else
        let timeIndices = time_indices_for_chunk yr timeValues cached c;
            firstCall = (case cached of None \<Rightarrow> True | Some k \<Rightarrow> False)
        in case reductionFn timeIndices firstCall of
             Inl e \<Rightarrow> (Some e, file, [(timeIndices, firstCall)])
           | Inr part \<Rightarrow>
               (case process_chunks yr timeValues reductionFn cal cs
                       (Stored (append_chunk cal cached c part)) of
                  (r, file', calls) \<Rightarrow> (r, file', (timeIndices, firstCall) # calls)))"

text \<open>The returned dataset is cut to the span of the requested time values.\<close>

definition truncate_to_span :: "int list \<Rightarrow> (int \<times> 'r) list \<Rightarrow> (int \<times> 'r) list" where
  "truncate_to_span timeValues rows =
     filter (\<lambda>(t, v). hd timeValues \<le> t \<and> t \<le> last timeValues) rows"

definition return_cached ::
  "int list \<Rightarrow> calendar \<Rightarrow> 'r ts_file \<Rightarrow> error + (int \<times> 'r) list" where
  "return_cached timeValues cal file =
     (case valid_cache cal file of
        None \<Rightarrow> Inl NoDataError
      | Some k \<Rightarrow> Inr (truncate_to_span timeValues (cache_rows k)))"

text \<open>
  One invocation: the returned dataset or the exception, the file left at the cache
  path, and the calls of the reduction function. No time value is NoDataError. A cached
  span equal to the required one is returned without any chunk being looked at.
\<close>

definition cache_time_series ::
  "(calendar \<Rightarrow> int \<Rightarrow> int) \<Rightarrow> int list \<Rightarrow> (int list \<Rightarrow> bool \<Rightarrow> error + (int \<times> 'r) list)
     \<Rightarrow> 'r ts_file \<Rightarrow> calendar \<Rightarrow> nat
     \<Rightarrow> (error + (int \<times> 'r) list) \<times> 'r ts_file \<times> (int list \<times> bool) list" where
  "cache_time_series year_of timeValues reductionFn cacheFile cal yearsPerCacheUpdate =
     (if timeValues = [] then (Inl NoDataError, cacheFile, [])
      else
        let yr = year_of cal;
            startYear = yr (hd timeValues);
            endYear = yr (last timeValues);
            file = discard_corrupt cacheFile
        in if (case valid_cache cal file of
                 None \<Rightarrow> False
               | Some k \<Rightarrow> cache_first_year k = startYear \<and> cache_last_year k = endYear)
           then (return_cached timeValues cal file, file, [])
           else
             (case process_chunks yr timeValues reductionFn cal
                     (chunk_years startYear endYear yearsPerCacheUpdate) file of
                (Some e, file', calls) \<Rightarrow> (Inl e, file', calls)
              | (None, file', calls) \<Rightarrow> (return_cached timeValues cal file', file', calls)))"

text \<open>
  The contract of a reduction function over the time values it is given indices of: it
  returns, and the time dimension of its result matches the time indices.
\<close>

definition reduction_contract ::
  "int list \<Rightarrow> (int list \<Rightarrow> bool \<Rightarrow> error + (int \<times> 'r) list) \<Rightarrow> bool" where
  "reduction_contract timeValues reductionFn \<longleftrightarrow>
     (\<forall>timeIndices firstCall. \<exists>part. reductionFn timeIndices firstCall = Inr part
        \<and> map fst part = map (\<lambda>i. timeValues ! nat i) timeIndices)"

definition rows_of :: "calendar \<Rightarrow> 'r ts_file \<Rightarrow> (int \<times> 'r) list" where
  "rows_of cal file = (case valid_cache cal file of None \<Rightarrow> [] | Some k \<Rightarrow> cache_rows k)"

text \<open>
  A file holds the years it covers when every requested time value whose year lies in
  the span of its record has a row there.
\<close>

definition holds_years :: "(int \<Rightarrow> int) \<Rightarrow> int list \<Rightarrow> calendar \<Rightarrow> 'r ts_file \<Rightarrow> bool" where
  "holds_years yr timeValues cal file \<longleftrightarrow>
     (\<forall>i < length timeValues.
        year_cached (valid_cache cal file) (yr (timeValues ! i)) \<longrightarrow>
        timeValues ! i \<in> fst ` set (rows_of cal file))"

text \<open>
  A sequence of invocations on one cache path, each with its own time values, reduction
  function and chunk length: the file left by one is the file found by the next. The
  result lists the returned datasets and all calls of the reduction functions in order.
\<close>

fun run_requests ::
  "(calendar \<Rightarrow> int \<Rightarrow> int) \<Rightarrow> calendar \<Rightarrow> 'r ts_file
     \<Rightarrow> (int list \<times> (int list \<Rightarrow> bool \<Rightarrow> error + (int \<times> 'r) list) \<times> nat) list
     \<Rightarrow> (error + (int \<times> 'r) list) list \<times> 'r ts_file \<times> (int list \<times> bool) list" where
  "run_requests year_of cal file [] = ([], file, [])"
| "run_requests year_of cal file ((timeValues, reductionFn, n) # reqs) =
     (case cache_time_series year_of timeValues reductionFn file cal n of
        (res, file', calls) \<Rightarrow>
          (case run_requests year_of cal file' reqs of
             (ress, file'', calls') \<Rightarrow> (res # ress, file'', calls @ calls')))"

section \<open>The climatology cache\<close>

text \<open>
  Modelled from the spec: \<^verbatim>\<open>compute_climatology\<close> and \<^verbatim>\<open>cache_climatologies\<close>
  (module shared/climatology/climatology of the repository) are imported by the tasks
  but are not among the analysed files; the model follows sections 3 and 4.3 of the
  specification. A month set is a name with its months; a date range is a pair of
  start and end; a dataset, already filtered to its resolved date range, has one row
  per month of input with the days in that month and the cells of each variable; the
  cached artifact records the month set and date range covered, the source files and
  one averaged field per variable.
\<close>

record month_set =
  ms_name :: string
  ms_months :: "nat list"

record clim_row =
  row_month :: nat
  row_days :: nat
  row_values :: "(string \<times> rat list) list"

record clim_dataset =
  ds_range :: "int \<times> int"
  ds_files :: "string list"
  ds_vars :: "string list"
  ds_rows :: "clim_row list"

record clim_entry =
  entry_months :: month_set
  entry_range :: "int \<times> int"
  entry_files :: "string list"
  entry_fields :: "(string \<times> rat list) list"

text \<open>
  The average of a variable over the selected months, per grid cell: the sum of value
  times days in month, divided by the sum of the days in month.
\<close>

definition weighted_mean :: "(nat \<times> rat list) list \<Rightarrow> rat list" where
  "weighted_mean ws =
     (case ws of
        [] \<Rightarrow> []
      | (d, x) # rest \<Rightarrow>
          map (\<lambda>c. c / of_nat (sum_list (map fst ws)))
            (foldl (\<lambda>acc (d', x'). map (\<lambda>(p, q). p + q) (zip acc (map (\<lambda>c. of_nat d' * c) x')))
               (map (\<lambda>c. of_nat d * c) x) rest))"

definition row_value :: "string \<Rightarrow> clim_row \<Rightarrow> error + (nat \<times> rat list)" where
  "row_value name row =
     (case map_of (row_values row) name of
        None \<Rightarrow> Inl (KeyError name)
      | Some x \<Rightarrow> Inr (row_days row, x))"

definition compute_climatology ::
  "clim_dataset \<Rightarrow> month_set \<Rightarrow> error + (string \<times> rat list) list" where
  "compute_climatology dataset monthSet =
     (let selected = filter (\<lambda>row. row_month row \<in> set (ms_months monthSet)) (ds_rows dataset)
      in if sum_list (map row_days selected) = 0 then Inl NoDataError
         else map_err (\<lambda>name. bind_err (map_err (row_value name) selected)
                          (\<lambda>ws. Inr (name, weighted_mean ws)))
                (ds_vars dataset))"

text \<open>
  The recorded date range covers the requested one when it is a superset of it. A hit
  needs the same month set and a covering date range; everything else is a full miss.
\<close>

definition range_covers :: "int \<times> int \<Rightarrow> int \<times> int \<Rightarrow> bool" where
  "range_covers cached requested \<longleftrightarrow> fst cached \<le> fst requested \<and> snd requested \<le> snd cached"

definition cache_hit :: "clim_dataset \<Rightarrow> month_set \<Rightarrow> clim_entry option \<Rightarrow> bool" where
  "cache_hit dataset monthSet prior =
     (case prior of
        None \<Rightarrow> False
      | Some entry \<Rightarrow>
          entry_months entry = monthSet \<and> range_covers (entry_range entry) (ds_range dataset))"

text \<open>
  The result, the artifact at the cache path afterwards, and whether the climatology
  was computed. On a hit the cached fields are returned as they are. On a miss the
  climatology is computed from the full dataset and the new artifact replaces the old
  one; a computation that fails leaves the artifact as it was.
\<close>

definition cache_climatologies ::
  "clim_dataset \<Rightarrow> month_set \<Rightarrow> clim_entry option
     \<Rightarrow> (error + (string \<times> rat list) list) \<times> clim_entry option \<times> bool" where
  "cache_climatologies dataset monthSet prior =
     (if cache_hit dataset monthSet prior then
        (case prior of
           Some entry \<Rightarrow> (Inr (entry_fields entry), prior, False)
         | None \<Rightarrow> (Inl NoDataError, prior, False))
      else
        (case compute_climatology dataset monthSet of
           Inl e \<Rightarrow> (Inl e, prior, True)
         | Inr averaged \<Rightarrow>
             (Inr averaged,
              Some \<lparr>entry_months = monthSet, entry_range = ds_range dataset,
                    entry_files = ds_files dataset, entry_fields = averaged\<rparr>,
              True)))"

section \<open>Concrete inputs\<close>







definition noleap_year :: "calendar \<Rightarrow> int \<Rightarrow> int" where
  "noleap_year cal t = t div 365 + 1"

definition echo_reduction :: "int list \<Rightarrow> int list \<Rightarrow> bool \<Rightarrow> error + (int \<times> int) list" where
  "echo_reduction timeValues timeIndices firstCall =
     Inr (map (\<lambda>i. (timeValues ! nat i, 10 * (timeValues ! nat i))) timeIndices)"

definition two_years_cache :: "int ts_cache" where
  "two_years_cache =
     \<lparr>cache_calendar = ''gregorian_noleap'', cache_first_year = 1, cache_last_year = 2,
      cache_rows = [(0, 0), (400, 4000)]\<rparr>"

definition four_years_cache :: "int ts_cache" where
  "four_years_cache =
     \<lparr>cache_calendar = ''gregorian_noleap'', cache_first_year = 1, cache_last_year = 4,
      cache_rows = [(0, 0), (400, 4000), (800, 8000), (1200, 12000)]\<rparr>"

definition ANN :: month_set where
  "ANN = \<lparr>ms_name = ''ANN'', ms_months = [1, 2, 3, 4, 5, 6, 7, 8, 9, 10, 11, 12]\<rparr>"

definition cache_ANN_2000_2010 :: clim_entry where
  "cache_ANN_2000_2010 =
     \<lparr>entry_months = ANN, entry_range = (2000, 2010), entry_files = [''mpaso.hist.2000.nc''],
      entry_fields = [(''sst'', [4, 5])]\<rparr>"

definition months_of :: "int \<times> int \<Rightarrow> clim_dataset" where
  "months_of years =
     \<lparr>ds_range = years, ds_files = [''mpaso.hist.2000.nc''], ds_vars = [''sst''],
      ds_rows = [\<lparr>row_month = 1, row_days = 31, row_values = [(''sst'', [1, 2])]\<rparr>,
                 \<lparr>row_month = 2, row_days = 28, row_values = [(''sst'', [3, 4])]\<rparr>]\<rparr>"

definition annual_cycle :: "int dataset" where
  "annual_cycle =
     \<lparr>Time = [15, 45, 350], time_vars = [(''IceArea'', [12, 13, 11])],
      fixed_vars = [], dims = [], var_attrs = []\<rparr>"

definition three_years :: "int dataset" where
  "three_years =
     \<lparr>Time = [400, 800, 1095], time_vars = [], fixed_vars = [], dims = [], var_attrs = []\<rparr>"

section \<open>Properties of the depth indices\<close>

lemma np_where_gt_empty:
  "np_where_gt depth thr = [] \<longleftrightarrow> \<not> (\<exists>d \<in> set depth. d > thr)"
  by (auto simp: np_where_gt_def filter_empty_conv all_set_conv_all_nth)

lemma depth_index_error:
  "depth_index depth thr = Inl e \<Longrightarrow> e = IndexError"
  by (auto simp: depth_index_def split: list.splits)

lemma depth_index_ok:
  "(\<exists>k. depth_index depth thr = Inr k) \<longleftrightarrow> (\<exists>d \<in> set depth. d > thr)"
  using np_where_gt_empty [of depth thr]
  by (auto simp: depth_index_def split: list.splits)

lemma depth_index_fail:
  "\<not> (\<exists>d \<in> set depth. d > thr) \<Longrightarrow> depth_index depth thr = Inl IndexError"
  using np_where_gt_empty [of depth thr]
  by (auto simp: depth_index_def split: list.splits)

lemma filter_upt_first:
  assumes "filter P [0..<n] = i # rest"
  shows "P i \<and> i < n \<and> (\<forall>j < i. \<not> P j)"
proof -
  have "i \<in> set (filter P [0..<n])" using assms by simp
  then have a: "P i" "i < n" by auto
  have "\<not> P j" if "j < i" for j
  proof
    assume "P j"
    have s: "sorted (filter P [0..<n])" by (rule sorted_wrt_filter) simp
    from \<open>P j\<close> that a have "j \<in> set (filter P [0..<n])" by auto
    then have "j = i \<or> j \<in> set rest" using assms by simp
    moreover have "\<forall>x \<in> set rest. i \<le> x" using s assms by simp
    ultimately show False using that by auto
  qed
  then show ?thesis using a by blast
qed

lemma depth_index_first:
  assumes "depth_index depth thr = Inr k"
  shows "0 \<le> k + 1 \<and> nat (k + 1) < length depth \<and> depth ! nat (k + 1) > thr
         \<and> (\<forall>j < nat (k + 1). \<not> depth ! j > thr)"
proof -
  from assms obtain i rest where
    f: "filter (\<lambda>i. depth ! i > thr) [0..<length depth] = i # rest" and k: "k = int i - 1"
    by (auto simp: depth_index_def np_where_gt_def split: list.splits)
  from filter_upt_first [OF f] k show ?thesis by simp
qed

text \<open>
  C10. The two layer indices of \<^verbatim>\<open>TimeSeriesOHC.run\<close> are defined exactly when
  refBottomDepth holds a value above 700 and a value above 2000; then each is the
  position of the first entry above its threshold, minus one; for every other depth
  array the indexing raises IndexError.
\<close>

theorem ohc_depth_indices_defined_iff:
  "((\<exists>r. ohc_depth_indices depth = Inr r) \<longleftrightarrow>
      (\<exists>d \<in> set depth. d > 700) \<and> (\<exists>d \<in> set depth. d > 2000))
   \<and> (\<not> ((\<exists>d \<in> set depth. d > 700) \<and> (\<exists>d \<in> set depth. d > 2000)) \<longrightarrow>
        ohc_depth_indices depth = Inl IndexError)
   \<and> (\<forall>k700m k2000m kbtm. ohc_depth_indices depth = Inr (k700m, k2000m, kbtm) \<longrightarrow>
        nat (k700m + 1) < length depth \<and> depth ! nat (k700m + 1) > 700
        \<and> (\<forall>j < nat (k700m + 1). \<not> depth ! j > 700)
        \<and> nat (k2000m + 1) < length depth \<and> depth ! nat (k2000m + 1) > 2000
        \<and> (\<forall>j < nat (k2000m + 1). \<not> depth ! j > 2000)
        \<and> kbtm = int (length depth) - 1)"
proof -
  have p1: "(\<exists>r. ohc_depth_indices depth = Inr r) \<longleftrightarrow>
      (\<exists>d \<in> set depth. d > 700) \<and> (\<exists>d \<in> set depth. d > 2000)"
    using depth_index_ok [of depth 700] depth_index_ok [of depth 2000]
    by (auto simp: ohc_depth_indices_def split: sum.splits)
  have p2: "ohc_depth_indices depth = Inl IndexError"
    if "\<not> ((\<exists>d \<in> set depth. d > 700) \<and> (\<exists>d \<in> set depth. d > 2000))"
    using that depth_index_fail [of depth 700] depth_index_fail [of depth 2000]
    by (auto simp: ohc_depth_indices_def split: sum.splits dest: depth_index_error)
  have p3: "nat (k700m + 1) < length depth \<and> depth ! nat (k700m + 1) > 700
        \<and> (\<forall>j < nat (k700m + 1). \<not> depth ! j > 700)
        \<and> nat (k2000m + 1) < length depth \<and> depth ! nat (k2000m + 1) > 2000
        \<and> (\<forall>j < nat (k2000m + 1). \<not> depth ! j > 2000)
        \<and> kbtm = int (length depth) - 1"
    if a: "ohc_depth_indices depth = Inr (k700m, k2000m, kbtm)" for k700m k2000m kbtm
  proof -
    from a have k7: "depth_index depth 700 = Inr k700m"
      and k20: "depth_index depth 2000 = Inr k2000m"
      and kb: "kbtm = int (length depth) - 1"
      by (auto simp: ohc_depth_indices_def split: sum.splits)
    from depth_index_first [OF k7] depth_index_first [OF k20] kb
    show ?thesis by simp
  qed
  from p1 p2 p3 show ?thesis by blast
qed

theorem ohc_depth_indices_witness:
  "ohc_depth_indices [100, 800, 2500] = Inr (0, 1, 2)
   \<and> ohc_depth_indices [100, 800, 1500] = Inl IndexError"
proof -
  have u: "[0..<3] = [0, 1, 2]" by (simp add: upt_rec)
  have a: "ohc_depth_indices [100, 800, 2500] = Inr (0, 1, 2)"
    by (simp add: ohc_depth_indices_def depth_index_def np_where_gt_def u)
  have "\<not> ((\<exists>d \<in> set [100, 800, 1500::real]. d > 700)
            \<and> (\<exists>d \<in> set [100, 800, 1500::real]. d > 2000))"
    by simp
  with ohc_depth_indices_defined_iff [of "[100, 800, 1500]"]
  have b: "ohc_depth_indices [100, 800, 1500] = Inl IndexError" by blast
  from a b show ?thesis by simp
qed


section \<open>Properties of the restart file and start time lookups\<close>





section \<open>Properties of the setup with no input files\<close>











section \<open>Properties of the reduction callbacks\<close>

















section \<open>Properties of the replicated cycle\<close>

lemma time_min_eq: "ts \<noteq> [] \<Longrightarrow> time_min ts = Inr (Min (set ts))"
  by (cases ts) (simp_all add: time_min_def Min.set_eq_fold [symmetric] del: set_simps)

lemma time_max_eq: "ts \<noteq> [] \<Longrightarrow> time_max ts = Inr (Max (set ts))"
  by (cases ts) (simp_all add: time_max_def Max.set_eq_fold [symmetric] del: set_simps)

text \<open>With a positive period both loops end.\<close>

lemma find_end_index_terminates:
  assumes "0 < p"
  shows "\<exists>k. find_end_index d r p e = Some k \<and> e \<le> k \<and> d \<le> r + k * p"
proof (induction "nat (d - (r + e * p))" arbitrary: e rule: less_induct)
  case less
  show ?case
  proof (cases "d > r + e * p")
    case True
    have "nat (d - (r + (e + 1) * p)) < nat (d - (r + e * p))"
      using True assms by (simp add: algebra_simps)
    from less [OF this] obtain k where
      "find_end_index d r p (e + 1) = Some k" "e + 1 \<le> k" "d \<le> r + k * p" by blast
    then show ?thesis using True
      by (subst find_end_index.simps) auto
  next
    case False
    then show ?thesis by (subst find_end_index.simps) auto
  qed
qed

lemma find_start_index_terminates:
  assumes "0 < p"
  shows "\<exists>k. find_start_index d r p s = Some k \<and> s \<le> k"
proof (induction "nat (d - (r + (s + 1) * p))" arbitrary: s rule: less_induct)
  case less
  show ?case
  proof (cases "d > r + (s + 1) * p")
    case True
    have "nat (d - (r + (s + 1 + 1) * p)) < nat (d - (r + (s + 1) * p))"
      using True assms by (simp add: algebra_simps)
    from less [OF this] obtain k where
      "find_start_index d r p (s + 1) = Some k" "s + 1 \<le> k" by blast
    then show ?thesis using True
      by (subst find_start_index.simps) auto
  next
    case False
    then show ?thesis by (subst find_start_index.simps) auto
  qed
qed

lemma map_fst_zip_vars:
  "length xs = length ys \<Longrightarrow>
     map fst (map (\<lambda>((name, vs), (name', ws)). (name, vs @ ws)) (zip xs ys)) = map fst xs"
  by (induction xs ys rule: list_induct2) auto

lemma concat_Time_ok:
  assumes "map fst (time_vars a) = map fst (time_vars b)"
  shows "\<exists>r. concat_Time a b = Inr r \<and> Time r = Time a @ Time b
           \<and> map fst (time_vars r) = map fst (time_vars a)"
proof -
  from assms have "length (time_vars a) = length (time_vars b)"
    by (metis length_map)
  from map_fst_zip_vars [OF this] assms show ?thesis
    by (simp add: concat_Time_def)
qed

lemma replicate_loop_Time:
  assumes "map fst (time_vars dsShift) = map fst (time_vars rep)"
  shows "\<exists>r. replicate_loop rep p cs dsShift = Inr r
           \<and> Time r = Time dsShift @ concat (map (\<lambda>c. map (\<lambda>t. t + (c + 1) * p) (Time rep)) cs)"
  using assms
proof (induction cs arbitrary: dsShift)
  case Nil
  then show ?case by simp
next
  case (Cons c cs)
  have "map fst (time_vars dsShift) = map fst (time_vars (shift_Time rep ((c + 1) * p)))"
    using Cons.prems by (simp add: shift_Time_def)
  from concat_Time_ok [OF this] obtain d where
    d: "concat_Time dsShift (shift_Time rep ((c + 1) * p)) = Inr d"
    "Time d = Time dsShift @ Time (shift_Time rep ((c + 1) * p))"
    "map fst (time_vars d) = map fst (time_vars dsShift)" by blast
  from Cons.IH [of d] d Cons.prems obtain r where
    "replicate_loop rep p cs d = Inr r"
    "Time r = Time d @ concat (map (\<lambda>c. map (\<lambda>t. t + (c + 1) * p) (Time rep)) cs)"
    by auto
  then show ?case using d by (simp add: bind_err_def shift_Time_def)
qed

lemma in_later_block:
  "c \<in> set cs \<Longrightarrow> t \<in> set T \<Longrightarrow> d = c + 1 \<Longrightarrow>
     t + d * p \<in> set (A @ concat (map (\<lambda>c. map (\<lambda>t. t + (c + 1) * (p::int)) T) cs))"
  by force

lemma in_first_block:
  "t \<in> set T \<Longrightarrow> t + d \<in> set (map (\<lambda>t. t + (d::int)) T @ B)"
  by force

text \<open>
  C9. For a dataset \<open>ds\<close> with at least one time value (it has a maximum) and a dataset
  to replicate with at least two time values and a positive period (its time span plus
  the gap between its first two time values), \<^verbatim>\<open>replicate_cycle\<close> returns a dataset,
  and the latest time of that dataset is not before the latest time of \<open>ds\<close>.
\<close>

theorem replicate_cycle_covers_end:
  assumes ne: "Time ds \<noteq> []" and two: "2 \<le> length (Time rep)"
    and pos: "0 < (Max (set (Time rep)) - Min (set (Time rep)))
                  + (Time rep ! 1 - Min (set (Time rep)))"
  shows "\<exists>r. replicate_cycle ds rep = Some (Inr r) \<and> Time r \<noteq> []
            \<and> Max (set (Time ds)) \<le> Max (set (Time r))"
proof -
  let ?T = "Time rep"
  let ?p = "(Max (set ?T) - Min (set ?T)) + (?T ! 1 - Min (set ?T))"
  from two have rne: "?T \<noteq> []" by auto
  have sec: "py_index ?T 1 = Inr (?T ! 1)"
    using two by (simp add: py_index_def index_ok_def pick_def)
  obtain s where s: "find_start_index (Min (set (Time ds))) (Min (set ?T)) ?p 0 = Some s"
    using find_start_index_terminates [OF pos] by blast
  obtain e where e: "find_end_index (Max (set (Time ds))) (Max (set ?T)) ?p 0 = Some e"
    and e0: "0 \<le> e" and cover: "Max (set (Time ds)) \<le> Max (set ?T) + e * ?p"
    using find_end_index_terminates [OF pos] by blast
  have "map fst (time_vars (shift_Time rep (s * ?p))) = map fst (time_vars rep)"
    by (simp add: shift_Time_def)
  from replicate_loop_Time [OF this, of ?p "[s..e - 1]"] obtain r where
    r: "replicate_loop rep ?p [s..e - 1] (shift_Time rep (s * ?p)) = Inr r"
    and tr: "Time r = map (\<lambda>t. t + s * ?p) ?T
               @ concat (map (\<lambda>c. map (\<lambda>t. t + (c + 1) * ?p) ?T) [s..e - 1])"
    by (auto simp: shift_Time_def)
  have run: "replicate_cycle ds rep = Some (Inr r)"
    by (simp only: replicate_cycle_def time_min_eq [OF ne] time_max_eq [OF ne]
        time_min_eq [OF rne] time_max_eq [OF rne] sec sum.case Let_def s e option.case r)
  have mx: "Max (set ?T) \<in> set ?T" using rne by simp
  have "\<exists>x \<in> set (Time r). Max (set (Time ds)) \<le> x"
  proof (cases "e \<le> s")
    case True
    then have le: "Max (set ?T) + e * ?p \<le> Max (set ?T) + s * ?p"
      using pos by (simp add: mult_right_mono)
    have mem: "Max (set ?T) + s * ?p \<in> set (Time r)"
      unfolding tr by (rule in_first_block [OF mx])
    from le cover have "Max (set (Time ds)) \<le> Max (set ?T) + s * ?p" by linarith
    with mem show ?thesis by (rule rev_bexI)
  next
    case False
    then have "e - 1 \<in> set [s..e - 1]" by simp
    then have mem: "Max (set ?T) + e * ?p \<in> set (Time r)"
      unfolding tr by (rule in_later_block [OF _ mx]) simp
    from mem cover show ?thesis by (rule rev_bexI)
  qed
  then obtain x where x: "x \<in> set (Time r)" "Max (set (Time ds)) \<le> x" by blast
  then have "x \<le> Max (set (Time r))" by simp
  with x have m: "Max (set (Time ds)) \<le> Max (set (Time r))" by linarith
  from x have n: "Time r \<noteq> []" by auto
  from run n m show ?thesis by blast
qed

theorem replicate_cycle_covers_end_witness:
  "Time three_years \<noteq> [] \<and> 2 \<le> length (Time annual_cycle)
   \<and> 0 < (Max (set (Time annual_cycle)) - Min (set (Time annual_cycle)))
          + (Time annual_cycle ! 1 - Min (set (Time annual_cycle)))
   \<and> (\<exists>r. replicate_cycle three_years annual_cycle = Some (Inr r) \<and> Time r \<noteq> []
          \<and> 1095 \<le> Max (set (Time r)))"
proof -
  have h: "Time three_years \<noteq> []" "2 \<le> length (Time annual_cycle)"
    "0 < (Max (set (Time annual_cycle)) - Min (set (Time annual_cycle)))
          + (Time annual_cycle ! 1 - Min (set (Time annual_cycle)))"
    by (simp_all add: three_years_def annual_cycle_def)
  have m: "Max (set (Time three_years)) = 1095"
    by (simp add: three_years_def)
  from replicate_cycle_covers_end [OF h] m h show ?thesis by simp
qed


end
